theory Spec2Isabelle
  imports Main
begin

section \<open>Bing search retriever (gpt_researcher/retrievers/bing/bing.py)\<close>

text \<open>
  The retriever is glue code around a remote agent service. The embedding makes the
  remote service a parameter (a record of its responses), turns every Python exception
  into a value of a sum type, and records every remote call and every log line as an
  event, so that what is transmitted and which calls are made can be stated.
\<close>

subsection \<open>Python values and exceptions\<close>

text \<open>Leaf values of the loosely typed response objects: they are copied, never inspected.\<close>

datatype pyval = PNone | PStr string | PInt int

text \<open>
  An instance of Python's \<open>Exception\<close>, with the text \<open>str(e)\<close> that the log lines
  interpolate. Both handlers of \<open>search\<close> are \<open>except Exception\<close>, so they catch every
  value of this type.
\<close>

datatype exn = Exn string

fun exn_str :: "exn \<Rightarrow> string" where
  "exn_str (Exn s) = s"

subsection \<open>Construction\<close>

text \<open>
  The argument \<open>query_domains\<close>: \<open>None\<close>, a list of domain strings, or a single string
  (the source treats every non-list value through \<open>f" site:{...}"\<close>).
\<close>

datatype domains = DNone | DList "string list" | DStr string

text \<open>Python truthiness of such a value: \<open>None\<close>, \<open>[]\<close> and \<open>""\<close> are falsy.\<close>

fun truthy :: "domains \<Rightarrow> bool" where
  "truthy DNone = False"
| "truthy (DList ds) = (ds \<noteq> [])"
| "truthy (DStr s) = (s \<noteq> [])"

text \<open>The process environment, after \<open>load_dotenv()\<close>; \<open>os.environ.get\<close> is map lookup.\<close>

type_synonym environ = "string \<rightharpoonup> string"

text \<open>\<open>not x\<close> for the result of \<open>os.environ.get\<close>: true for \<open>None\<close> and for \<open>""\<close>.\<close>

fun not_set :: "string option \<Rightarrow> bool" where
  "not_set None = True"
| "not_set (Some s) = (s = [])"

record bing_search =
  query :: string
  query_domains :: domains
  project_endpoint :: string
  bing_connection_name :: string

definition missing_config :: exn where
  "missing_config =
     Exn ''Missing PROJECT_CONNECTION_STRING_ENV or BING_CONNECTION_NAME_ENV environment variables.''"

text \<open>
  \<open>BingSearch.__init__\<close>. \<open>query_domains or None\<close> keeps a truthy argument and stores
  \<open>None\<close> for a falsy one. The credential, client and tool objects built afterwards hold
  no data of their own beyond the two settings.
\<close>

definition init :: "environ \<Rightarrow> string \<Rightarrow> domains \<Rightarrow> exn + bing_search" where
  "init env q qd =
     (let endpoint = env ''AI_PROJECT_ENDPOINT'';
          conn = env ''BING_CONNECTION_NAME_ENV''
      in if not_set endpoint \<or> not_set conn then Inl missing_config
         else Inr \<lparr> query = q,
                    query_domains = (if truthy qd then qd else DNone),
                    project_endpoint = the endpoint,
                    bing_connection_name = the conn \<rparr>)"

subsection \<open>Query construction\<close>

text \<open>\<open>sep.join(xs)\<close>.\<close>

fun join :: "string \<Rightarrow> string list \<Rightarrow> string" where
  "join sep [] = []"
| "join sep [x] = x"
| "join sep (x # y # ys) = x @ sep @ join sep (y # ys)"

text \<open>Lines 48 to 54 of \<open>search\<close>.\<close>

definition build_query :: "bing_search \<Rightarrow> string" where
  "build_query self =
     (if truthy (query_domains self) then
        (case query_domains self of
           DList ds \<Rightarrow> query self @ '' '' @ join '' OR '' (map (\<lambda>d. ''site:'' @ d) ds)
         | DStr s \<Rightarrow> query self @ '' site:'' @ s
         | DNone \<Rightarrow> query self @ '' site:None'')
      else query self)"

subsection \<open>Remote response objects\<close>

text \<open>
  The response objects are probed with \<open>getattr\<close> and \<open>hasattr\<close>. An attribute is an
  \<open>option\<close>: \<open>None\<close> when the object has no such attribute, \<open>Some v\<close> when it has it
  with value \<open>v\<close>.
\<close>

text \<open>The value of an annotation's \<open>url_citation\<close>: Python's \<open>None\<close>, or an object.\<close>

datatype citation = CitNone | Citation "pyval option" "pyval option"

fun cit_truthy :: "citation \<Rightarrow> bool" where
  "cit_truthy CitNone = False"
| "cit_truthy (Citation u t) = True"

fun cit_url :: "citation \<Rightarrow> pyval option" where
  "cit_url CitNone = None"
| "cit_url (Citation u t) = u"

fun cit_title :: "citation \<Rightarrow> pyval option" where
  "cit_title CitNone = None"
| "cit_title (Citation u t) = t"

record annotation =
  a_type :: "pyval option"
  a_text :: "pyval option"
  a_start_index :: "pyval option"
  a_end_index :: "pyval option"
  a_url_citation :: "citation option"

text \<open>The value of \<open>text.annotations\<close>: a list, or \<open>None\<close> (which cannot be iterated).\<close>

datatype annotations = AnnList "annotation list" | AnnNone

record text_obj =
  t_value :: "pyval option"
  t_annotations :: "annotations option"

text \<open>
  A message of the thread. \<open>m_created_at\<close> is the time at which the service created the
  message; \<open>search\<close> never reads it, it is there to say what chronological order is.
\<close>

record message =
  m_role :: "pyval option"
  m_text :: "text_obj option"
  m_created_at :: nat

record run =
  status :: string
  last_error :: string

subsection \<open>The returned dictionaries\<close>

record url_dict =
  d_url :: pyval
  d_title :: pyval

text \<open>In \<open>f_url_citation\<close>, \<open>None\<close> is Python's \<open>None\<close>.\<close>

record fmt_annotation =
  f_type :: pyval
  f_text :: pyval
  f_start_index :: pyval
  f_end_index :: pyval
  f_url_citation :: "url_dict option"

record out_text =
  v_value :: pyval
  v_annotations :: "fmt_annotation list"

record out_item =
  o_type :: string
  o_text :: out_text

subsection \<open>The remote service and the events of a call\<close>

text \<open>
  What the remote client answers to each call of \<open>search\<close>: \<open>Inl e\<close> (or \<open>Some e\<close> for a
  call without result) when the call raises \<open>e\<close>. A call that succeeds answers an object
  of the expected kind: an agent and a thread are given by their \<open>id\<close>, a run by its
  \<open>status\<close> and \<open>last_error\<close>. Each call is made at most once by \<open>search\<close>, with the
  arguments shown.
\<close>

record remote =
  client_enter :: "exn option"
  create_agent :: "string \<Rightarrow> exn + string"
  threads_create :: "exn + string"
  messages_create :: "string \<Rightarrow> string \<Rightarrow> exn option"
  create_and_process :: "string \<Rightarrow> string \<Rightarrow> exn + run"
  messages_list :: "string \<Rightarrow> exn + message list"
  delete_agent :: "string \<Rightarrow> exn option"
  client_exit :: "exn option"

datatype event =
    Enter
  | Exit
  | CreateAgent string
  | ThreadsCreate
  | MessagesCreate string string
  | CreateAndProcess string string
  | MessagesList string
  | DeleteAgent string
  | LogInfo string
  | LogWarning string
  | LogError string

text \<open>A computation: its outcome (an exception or a value) and the events it produced.\<close>

type_synonym 'a comp = "(exn + 'a) \<times> event list"

definition ret :: "'a \<Rightarrow> 'a comp" where
  "ret x = (Inr x, [])"

definition raise :: "exn \<Rightarrow> 'a comp" where
  "raise e = (Inl e, [])"

definition emit :: "event \<Rightarrow> unit comp" where
  "emit ev = (Inr (), [ev])"

text \<open>A remote call: the event, then the answer.\<close>

definition call :: "event \<Rightarrow> exn + 'a \<Rightarrow> 'a comp" where
  "call ev r = (r, [ev])"

definition call_unit :: "event \<Rightarrow> exn option \<Rightarrow> unit comp" where
  "call_unit ev r = (case r of None \<Rightarrow> (Inr (), [ev]) | Some e \<Rightarrow> (Inl e, [ev]))"

text \<open>Sequencing: an exception skips the rest.\<close>

definition bind :: "'a comp \<Rightarrow> ('a \<Rightarrow> 'b comp) \<Rightarrow> 'b comp" where
  "bind m f =
     (case m of
        (Inl e, t) \<Rightarrow> (Inl e, t)
      | (Inr a, t) \<Rightarrow> (case f a of (r, t') \<Rightarrow> (r, t @ t')))"

text \<open>\<open>try: m except Exception as e: h e\<close>.\<close>

definition try_except :: "'a comp \<Rightarrow> (exn \<Rightarrow> 'a comp) \<Rightarrow> 'a comp" where
  "try_except m h =
     (case m of
        (Inl e, t) \<Rightarrow> (case h e of (r, t') \<Rightarrow> (r, t @ t'))
      | (Inr a, t) \<Rightarrow> (Inr a, t))"

text \<open>
  \<open>with self.project_client as client: body\<close>. An exception of \<open>__enter__\<close> skips body and
  \<open>__exit__\<close>. Otherwise \<open>__exit__\<close> runs however the body ends (by \<open>return\<close> or by an
  exception); the client's \<open>__exit__\<close> returns \<open>None\<close>, so it suppresses nothing, and an
  exception it raises replaces the outcome of the body.
\<close>

definition with_client :: "remote \<Rightarrow> 'a comp \<Rightarrow> 'a comp" where
  "with_client rm body =
     (case client_enter rm of
        Some e \<Rightarrow> (Inl e, [Enter])
      | None \<Rightarrow>
          (case body of (r, t) \<Rightarrow>
             (case client_exit rm of
                Some e \<Rightarrow> (Inl e, Enter # t @ [Exit])
              | None \<Rightarrow> (r, Enter # t @ [Exit]))))"

subsection \<open>Extraction of the response\<close>

definition is_assistant :: "message \<Rightarrow> bool" where
  "is_assistant m = (m_role m = Some (PStr ''assistant''))"

text \<open>The loop of lines 94 to 97 over an already reversed list: stop at the first match.\<close>

fun scan :: "message list \<Rightarrow> message option" where
  "scan [] = None"
| "scan (m # ms) = (if is_assistant m then Some m else scan ms)"

definition find_last_msg :: "message list \<Rightarrow> message option" where
  "find_last_msg messages = scan (rev messages)"



text \<open>\<open>getattr(obj, name, None)\<close> for a leaf attribute.\<close>

fun getattr_none :: "pyval option \<Rightarrow> pyval" where
  "getattr_none None = PNone"
| "getattr_none (Some v) = v"

text \<open>\<open>getattr(annotation, "url_citation", None)\<close>.\<close>

fun getattr_citation :: "citation option \<Rightarrow> citation" where
  "getattr_citation None = CitNone"
| "getattr_citation (Some c) = c"

text \<open>The body of the loop of lines 106 to 124.\<close>

definition format_annotation :: "annotation \<Rightarrow> fmt_annotation" where
  "format_annotation a =
     (let ann_type = getattr_none (a_type a);
          ann_text = getattr_none (a_text a);
          start_index = getattr_none (a_start_index a);
          end_index = getattr_none (a_end_index a);
          url_citation = getattr_citation (a_url_citation a);
          url = (if cit_truthy url_citation then getattr_none (cit_url url_citation) else PNone);
          title = (if cit_truthy url_citation then getattr_none (cit_title url_citation) else PNone)
      in \<lparr> f_type = ann_type, f_text = ann_text,
           f_start_index = start_index, f_end_index = end_index,
           f_url_citation =
             (if cit_truthy url_citation then Some \<lparr> d_url = url, d_title = title \<rparr>
              else None) \<rparr>)"

definition text_item :: "pyval \<Rightarrow> fmt_annotation list \<Rightarrow> out_item" where
  "text_item v anns =
     \<lparr> o_type = ''text'', o_text = \<lparr> v_value = v, v_annotations = anns \<rparr> \<rparr>"

text \<open>The text of the \<open>TypeError\<close>: \<open>'NoneType' object is not iterable\<close>.\<close>

definition not_iterable :: string where
  "not_iterable = CHR 0x27 # ''NoneType'' @ CHR 0x27 # '' object is not iterable''"

definition no_response :: "out_item list comp" where
  "no_response = bind (emit (LogWarning ''No response from the agent.'')) (\<lambda>_. ret [])"

text \<open>
  Lines 100 to 133: \<open>response_list\<close> from the selected message. A selected message is a
  truthy object; no selection, a message without \<open>text\<close> and a text without \<open>value\<close>
  all take the \<open>else\<close> branch. Iterating an \<open>annotations\<close> attribute that is \<open>None\<close>
  raises \<open>TypeError\<close>.
\<close>

definition build_response :: "message option \<Rightarrow> out_item list comp" where
  "build_response last_msg =
     (case last_msg of
        None \<Rightarrow> no_response
      | Some m \<Rightarrow>
          (case m_text m of
             None \<Rightarrow> no_response
           | Some tx \<Rightarrow>
               (case t_value tx of
                  None \<Rightarrow> no_response
                | Some v \<Rightarrow>
                    (case t_annotations tx of
                       None \<Rightarrow> ret [text_item v []]
                     | Some AnnNone \<Rightarrow> raise (Exn not_iterable)
                     | Some (AnnList anns) \<Rightarrow>
                         ret [text_item v (map format_annotation anns)]))))"

subsection \<open>search\<close>

text \<open>Lines 136 to 141: the deletion, with its own handler.\<close>

definition try_delete :: "remote \<Rightarrow> string \<Rightarrow> unit comp" where
  "try_delete rm agent =
     try_except
       (bind (call_unit (DeleteAgent agent) (delete_agent rm agent))
          (\<lambda>_. emit (LogInfo (''Deleted agent with id: '' @ agent))))
       (\<lambda>del_exc. emit (LogWarning (''Failed to delete agent: '' @ exn_str del_exc)))"

text \<open>Lines 62 to 143: the body of the \<open>with\<close> statement.\<close>

definition body :: "bing_search \<Rightarrow> remote \<Rightarrow> string \<Rightarrow> out_item list comp" where
  "body self rm q =
     bind (call (CreateAgent (bing_connection_name self))
             (create_agent rm (bing_connection_name self))) (\<lambda>agent.
     bind (call ThreadsCreate (threads_create rm)) (\<lambda>thread.
     bind (emit (LogInfo (''Created thread with id: '' @ thread))) (\<lambda>_.
     bind (call_unit (MessagesCreate thread q) (messages_create rm thread q)) (\<lambda>_.
     bind (call (CreateAndProcess thread agent) (create_and_process rm thread agent)) (\<lambda>r.
       if status r = ''failed'' then
         bind (emit (LogError (''Run failed: '' @ last_error r))) (\<lambda>_. ret [])
       else
         bind (bind (call (MessagesList thread) (messages_list rm thread))
                 (\<lambda>messages. build_response (find_last_msg messages))) (\<lambda>response_list.
         bind (try_delete rm agent) (\<lambda>_.
         ret response_list)))))))"

text \<open>\<open>BingSearch.search\<close>. The argument \<open>max_results\<close> is not used by the source.\<close>

definition search :: "bing_search \<Rightarrow> int \<Rightarrow> remote \<Rightarrow> out_item list comp" where
  "search self max_results rm =
     (let q = build_query self
      in try_except (with_client rm (body self rm q))
           (\<lambda>e. bind (emit (LogError (''Azure Bing Search failed: '' @ exn_str e)))
                  (\<lambda>_. ret [])))"

subsection \<open>Counting the deletions of a call\<close>

fun is_delete :: "event \<Rightarrow> bool" where
  "is_delete (DeleteAgent a) = True"
| "is_delete ev = False"

definition deletions :: "event list \<Rightarrow> nat" where
  "deletions t = length (filter is_delete t)"

text \<open>What the handler of line 144 leaves behind for an exception \<open>e\<close>.\<close>

definition caught_and_logged :: "out_item list comp \<Rightarrow> exn \<Rightarrow> bool" where
  "caught_and_logged c e =
     (fst c = Inr [] \<and> snd c \<noteq> [] \<and>
      last (snd c) = LogError (''Azure Bing Search failed: '' @ exn_str e))"

subsection \<open>Sample inputs\<close>

definition env_ok :: environ where
  "env_ok = [''AI_PROJECT_ENDPOINT'' \<mapsto> ''https://p.example'',
             ''BING_CONNECTION_NAME_ENV'' \<mapsto> ''conn'']"

definition self_plain :: bing_search where
  "self_plain = \<lparr> query = ''cats'', query_domains = DNone,
                   project_endpoint = ''https://p.example'', bing_connection_name = ''conn'' \<rparr>"

definition self_ab :: bing_search where
  "self_ab = self_plain \<lparr> query_domains := DList [''a.com'', ''b.com''] \<rparr>"

definition ann_cited :: annotation where
  "ann_cited = \<lparr> a_type = Some (PStr ''url_citation''), a_text = Some (PStr ''[1]''),
                  a_start_index = Some (PInt 3), a_end_index = Some (PInt 6),
                  a_url_citation = Some (Citation (Some (PStr ''https://a.com'')) None) \<rparr>"

definition ann_bare :: annotation where
  "ann_bare = \<lparr> a_type = None, a_text = None, a_start_index = None, a_end_index = None,
                 a_url_citation = None \<rparr>"

definition msg_user :: message where
  "msg_user = \<lparr> m_role = Some (PStr ''user''), m_text = None, m_created_at = 100 \<rparr>"

definition text_cats :: text_obj where
  "text_cats = \<lparr> t_value = Some (PStr ''Cats purr.''),
                  t_annotations = Some (AnnList [ann_cited, ann_bare]) \<rparr>"

definition msg_assistant :: message where
  "msg_assistant = \<lparr> m_role = Some (PStr ''assistant''), m_text = Some text_cats,
                      m_created_at = 101 \<rparr>"

definition run_completed :: run where
  "run_completed = \<lparr> status = ''completed'', last_error = ''None'' \<rparr>"

definition run_failed :: run where
  "run_failed = \<lparr> status = ''failed'', last_error = ''rate limit'' \<rparr>"

text \<open>A remote service on which every call succeeds.\<close>

definition remote_ok :: remote where
  "remote_ok =
     \<lparr> client_enter = None,
       create_agent = (\<lambda>_. Inr ''agent_1''),
       threads_create = Inr ''thread_1'',
       messages_create = (\<lambda>_ _. None),
       create_and_process = (\<lambda>_ _. Inr run_completed),
       messages_list = (\<lambda>_. Inr [msg_user, msg_assistant]),
       delete_agent = (\<lambda>_. None),
       client_exit = None \<rparr>"

text \<open>The same service, with a run that reports the status \<open>failed\<close>.\<close>

definition remote_failed_run :: remote where
  "remote_failed_run = remote_ok \<lparr> create_and_process := (\<lambda>_ _. Inr run_failed) \<rparr>"

text \<open>The same service, on which creating the thread raises.\<close>

definition remote_no_thread :: remote where
  "remote_no_thread = remote_ok \<lparr> threads_create := Inl (Exn ''timeout'') \<rparr>"

text \<open>The same service, on which only the deletion raises.\<close>

definition remote_no_delete :: remote where
  "remote_no_delete = remote_ok \<lparr> delete_agent := (\<lambda>_. Some (Exn ''503'')) \<rparr>"





text \<open>A service on which the deletion raises, and then leaving the client raises too.\<close>

definition remote_no_delete_no_exit :: remote where
  "remote_no_delete_no_exit = remote_no_delete \<lparr> client_exit := Some (Exn ''closed'') \<rparr>"

section \<open>Properties\<close>

subsection \<open>Outcome and events of the combinators\<close>

lemma fst_bind: "fst (bind m f) = (case fst m of Inl e \<Rightarrow> Inl e | Inr a \<Rightarrow> fst (f a))"
  by (simp add: bind_def split: prod.splits sum.splits)

lemma snd_bind: "snd (bind m f) = snd m @ (case fst m of Inl e \<Rightarrow> [] | Inr a \<Rightarrow> snd (f a))"
  by (simp add: bind_def split: prod.splits sum.splits)

lemma fst_try_except:
  "fst (try_except m h) = (case fst m of Inl e \<Rightarrow> fst (h e) | Inr a \<Rightarrow> Inr a)"
  by (simp add: try_except_def split: prod.splits sum.splits)

lemma snd_try_except:
  "snd (try_except m h) = snd m @ (case fst m of Inl e \<Rightarrow> snd (h e) | Inr a \<Rightarrow> [])"
  by (simp add: try_except_def split: prod.splits sum.splits)

lemma fst_with_client:
  "fst (with_client rm b) =
     (case client_enter rm of
        Some e \<Rightarrow> Inl e
      | None \<Rightarrow> (case client_exit rm of Some e \<Rightarrow> Inl e | None \<Rightarrow> fst b))"
  by (simp add: with_client_def split: prod.splits option.splits)

lemma snd_with_client:
  "snd (with_client rm b) =
     (case client_enter rm of Some e \<Rightarrow> [Enter] | None \<Rightarrow> Enter # snd b @ [Exit])"
  by (simp add: with_client_def split: prod.splits option.splits)

lemma fst_call_unit: "fst (call_unit ev r) = (case r of None \<Rightarrow> Inr () | Some e \<Rightarrow> Inl e)"
  by (simp add: call_unit_def split: option.splits)

lemma snd_call_unit: "snd (call_unit ev r) = [ev]"
  by (simp add: call_unit_def split: option.splits)

lemmas comp_simps = fst_bind snd_bind fst_try_except snd_try_except fst_with_client
  snd_with_client fst_call_unit snd_call_unit ret_def raise_def emit_def call_def

subsection \<open>What is transmitted\<close>

lemma snd_build_response: "MessagesCreate t c \<notin> set (snd (build_response lm))"
  by (simp add: build_response_def no_response_def comp_simps
      split: option.splits annotations.splits)

lemma snd_try_delete: "MessagesCreate t c \<notin> set (snd (try_delete rm a))"
  by (simp add: try_delete_def comp_simps split: option.splits sum.splits)

lemma body_transmitted: "MessagesCreate t c \<in> set (snd (body self rm q)) \<Longrightarrow> c = q"
  by (auto simp: body_def comp_simps snd_build_response snd_try_delete
      split: sum.splits option.splits if_splits)

lemma transmitted_is_build_query:
  "MessagesCreate t c \<in> set (snd (search self k rm)) \<Longrightarrow> c = build_query self"
  by (auto simp: search_def Let_def comp_simps dest: body_transmitted
      split: sum.splits option.splits if_splits)

lemma body_sends:
  "create_agent rm (bing_connection_name self) = Inr a \<Longrightarrow> threads_create rm = Inr t \<Longrightarrow>
   MessagesCreate t q \<in> set (snd (body self rm q))"
  by (simp add: body_def comp_simps)

lemma search_sends:
  "client_enter rm = None \<Longrightarrow> create_agent rm (bing_connection_name self) = Inr a \<Longrightarrow>
   threads_create rm = Inr t \<Longrightarrow>
   MessagesCreate t (build_query self) \<in> set (snd (search self k rm))"
  by (simp add: search_def Let_def comp_simps body_sends)

lemma init_fields:
  "init env q qd = Inr self \<Longrightarrow>
   query self = q \<and> query_domains self = (if truthy qd then qd else DNone)"
  by (auto simp: init_def Let_def split: if_splits)

subsection \<open>Outcome of a call\<close>

lemma fst_try_delete: "fst (try_delete rm a) = Inr ()"
  by (simp add: try_delete_def comp_simps split: option.splits)

lemma search_returns: "\<exists>r. fst (search self k rm) = Inr r"
  by (simp add: search_def comp_simps split: sum.splits option.splits)

lemma build_response_shape:
  assumes "fst (build_response lm) = Inr r"
  shows "r = [] \<or>
   (\<exists>m tx v. lm = Some m \<and> m_text m = Some tx \<and> t_value tx = Some v \<and>
      r = [text_item v (case t_annotations tx of
                          Some (AnnList anns) \<Rightarrow> map format_annotation anns
                        | _ \<Rightarrow> [])])"
proof (cases lm)
  case None
  with assms show ?thesis
    by (simp add: build_response_def no_response_def comp_simps)
next
  case (Some m)
  then have lm: "lm = Some m" .
  show ?thesis
  proof (cases "m_text m")
    case None
    with assms lm show ?thesis
      by (simp add: build_response_def no_response_def comp_simps)
  next
    case (Some tx)
    then have tx: "m_text m = Some tx" .
    show ?thesis
    proof (cases "t_value tx")
      case None
      with assms lm tx show ?thesis
        by (simp add: build_response_def no_response_def comp_simps)
    next
      case (Some v)
      with assms lm tx
      have "r = [text_item v (case t_annotations tx of
                          Some (AnnList anns) \<Rightarrow> map format_annotation anns
                        | _ \<Rightarrow> [])]"
        by (simp add: build_response_def comp_simps split: option.splits annotations.splits)
      with lm tx Some show ?thesis by simp
    qed
  qed
qed

lemma search_outcome:
  "fst (search self k rm) = Inr [] \<or>
   (\<exists>t msgs. threads_create rm = Inr t \<and> messages_list rm t = Inr msgs \<and>
      fst (search self k rm) = fst (build_response (find_last_msg msgs)))"
  by (simp add: search_def body_def Let_def comp_simps fst_try_delete
      split: sum.splits option.splits)

lemma scan_Some: "scan ms = Some m \<Longrightarrow> is_assistant m \<and> m \<in> set ms"
  by (induction ms) (auto split: if_splits)

subsection \<open>Selection and formatting\<close>








lemma format_annotation_missing:
  "(a_type a = None \<longrightarrow> f_type (format_annotation a) = PNone) \<and>
   (a_text a = None \<longrightarrow> f_text (format_annotation a) = PNone) \<and>
   (a_start_index a = None \<longrightarrow> f_start_index (format_annotation a) = PNone) \<and>
   (a_end_index a = None \<longrightarrow> f_end_index (format_annotation a) = PNone) \<and>
   (a_url_citation a = None \<longrightarrow> f_url_citation (format_annotation a) = None) \<and>
   (a_url_citation a = Some CitNone \<longrightarrow> f_url_citation (format_annotation a) = None) \<and>
   (\<forall>t. a_url_citation a = Some (Citation None t) \<longrightarrow>
      map_option d_url (f_url_citation (format_annotation a)) = Some PNone) \<and>
   (\<forall>u. a_url_citation a = Some (Citation u None) \<longrightarrow>
      map_option d_title (f_url_citation (format_annotation a)) = Some PNone)"
  by (simp add: format_annotation_def Let_def)

subsection \<open>Deletions of a call\<close>

lemma deletions_append: "deletions (xs @ ys) = deletions xs + deletions ys"
  by (simp add: deletions_def)

lemma deletions_Cons: "deletions (ev # t) = (if is_delete ev then 1 else 0) + deletions t"
  by (simp add: deletions_def)

lemma deletions_Nil: "deletions [] = 0"
  by (simp add: deletions_def)

lemmas deletions_simps = deletions_append deletions_Cons deletions_Nil

lemma deletions_build_response: "deletions (snd (build_response lm)) = 0"
  by (simp add: build_response_def no_response_def comp_simps deletions_simps
      split: option.splits annotations.splits)

lemma deletions_try_delete: "deletions (snd (try_delete rm a)) = 1"
  by (simp add: try_delete_def comp_simps deletions_simps split: option.splits)

lemma deleted_once_after_response:
  "client_enter rm = None \<Longrightarrow>
   create_agent rm (bing_connection_name self) = Inr a \<Longrightarrow>
   threads_create rm = Inr t \<Longrightarrow>
   messages_create rm t (build_query self) = None \<Longrightarrow>
   create_and_process rm t a = Inr r \<Longrightarrow>
   status r \<noteq> ''failed'' \<Longrightarrow>
   messages_list rm t = Inr msgs \<Longrightarrow>
   fst (build_response (find_last_msg msgs)) = Inr res \<Longrightarrow>
   deletions (snd (search self k rm)) = 1"
  by (simp add: search_def body_def Let_def comp_simps deletions_simps
      deletions_build_response deletions_try_delete fst_try_delete split: option.splits)

lemma not_deleted_after_failed_run:
  "client_enter rm = None \<Longrightarrow>
   create_agent rm (bing_connection_name self) = Inr a \<Longrightarrow>
   threads_create rm = Inr t \<Longrightarrow>
   messages_create rm t (build_query self) = None \<Longrightarrow>
   create_and_process rm t a = Inr r \<Longrightarrow>
   status r = ''failed'' \<Longrightarrow>
   deletions (snd (search self k rm)) = 0"
  by (simp add: search_def body_def Let_def comp_simps deletions_simps split: option.splits)

subsection \<open>Exceptions, step by step\<close>

lemmas caught_simps = caught_and_logged_def search_def body_def Let_def comp_simps fst_try_delete

lemma caught_enter:
  "client_enter rm = Some e \<Longrightarrow> caught_and_logged (search self k rm) e"
  by (simp add: caught_simps)

lemma caught_exit:
  "client_enter rm = None \<Longrightarrow> client_exit rm = Some e \<Longrightarrow>
   caught_and_logged (search self k rm) e"
  by (simp add: caught_simps)

lemma caught_create_agent:
  "client_enter rm = None \<Longrightarrow> client_exit rm = None \<Longrightarrow>
   create_agent rm (bing_connection_name self) = Inl e \<Longrightarrow>
   caught_and_logged (search self k rm) e"
  by (simp add: caught_simps)

lemma caught_threads_create:
  "client_enter rm = None \<Longrightarrow> client_exit rm = None \<Longrightarrow>
   create_agent rm (bing_connection_name self) = Inr a \<Longrightarrow>
   threads_create rm = Inl e \<Longrightarrow>
   caught_and_logged (search self k rm) e"
  by (simp add: caught_simps)

lemma caught_messages_create:
  "client_enter rm = None \<Longrightarrow> client_exit rm = None \<Longrightarrow>
   create_agent rm (bing_connection_name self) = Inr a \<Longrightarrow>
   threads_create rm = Inr t \<Longrightarrow>
   messages_create rm t (build_query self) = Some e \<Longrightarrow>
   caught_and_logged (search self k rm) e"
  by (simp add: caught_simps)

lemma caught_create_and_process:
  "client_enter rm = None \<Longrightarrow> client_exit rm = None \<Longrightarrow>
   create_agent rm (bing_connection_name self) = Inr a \<Longrightarrow>
   threads_create rm = Inr t \<Longrightarrow>
   messages_create rm t (build_query self) = None \<Longrightarrow>
   create_and_process rm t a = Inl e \<Longrightarrow>
   caught_and_logged (search self k rm) e"
  by (simp add: caught_simps)

lemma caught_messages_list:
  "client_enter rm = None \<Longrightarrow> client_exit rm = None \<Longrightarrow>
   create_agent rm (bing_connection_name self) = Inr a \<Longrightarrow>
   threads_create rm = Inr t \<Longrightarrow>
   messages_create rm t (build_query self) = None \<Longrightarrow>
   create_and_process rm t a = Inr r \<Longrightarrow> status r \<noteq> ''failed'' \<Longrightarrow>
   messages_list rm t = Inl e \<Longrightarrow>
   caught_and_logged (search self k rm) e"
  by (simp add: caught_simps)

lemma caught_build_response:
  "client_enter rm = None \<Longrightarrow> client_exit rm = None \<Longrightarrow>
   create_agent rm (bing_connection_name self) = Inr a \<Longrightarrow>
   threads_create rm = Inr t \<Longrightarrow>
   messages_create rm t (build_query self) = None \<Longrightarrow>
   create_and_process rm t a = Inr r \<Longrightarrow> status r \<noteq> ''failed'' \<Longrightarrow>
   messages_list rm t = Inr msgs \<Longrightarrow>
   fst (build_response (find_last_msg msgs)) = Inl e \<Longrightarrow>
   caught_and_logged (search self k rm) e"
  by (simp add: caught_simps)

lemma delete_failure_logged:
  "delete_agent rm a = Some e \<Longrightarrow>
   snd (try_delete rm a) =
     [DeleteAgent a, LogWarning (''Failed to delete agent: '' @ exn_str e)]"
  by (simp add: try_delete_def comp_simps)

lemma delete_failure_outcome:
  "client_enter rm = None \<Longrightarrow>
   create_agent rm (bing_connection_name self) = Inr a \<Longrightarrow>
   threads_create rm = Inr t \<Longrightarrow>
   messages_create rm t (build_query self) = None \<Longrightarrow>
   create_and_process rm t a = Inr r \<Longrightarrow> status r \<noteq> ''failed'' \<Longrightarrow>
   messages_list rm t = Inr msgs \<Longrightarrow>
   fst (build_response (find_last_msg msgs)) = Inr res \<Longrightarrow>
   delete_agent rm a = Some e \<Longrightarrow>
   LogWarning (''Failed to delete agent: '' @ exn_str e) \<in> set (snd (search self k rm)) \<and>
   fst (search self k rm) = (case client_exit rm of None \<Rightarrow> Inr res | Some x \<Rightarrow> Inr [])"
  by (simp add: search_def body_def Let_def comp_simps fst_try_delete delete_failure_logged
      split: option.splits)

subsection \<open>Construction\<close>

text \<open>
  Claim C7. Constructing a \<open>BingSearch\<close> raises when the project endpoint or the Bing
  connection name is absent from the environment or empty; when both are present and
  non-empty, construction returns the object, with both settings stored.
\<close>

theorem init_requires_settings:
  "(env ''AI_PROJECT_ENDPOINT'' = None \<or> env ''AI_PROJECT_ENDPOINT'' = Some [] \<or>
    env ''BING_CONNECTION_NAME_ENV'' = None \<or> env ''BING_CONNECTION_NAME_ENV'' = Some []
      \<longrightarrow> init env q qd = Inl missing_config) \<and>
   (\<forall>ep cn. env ''AI_PROJECT_ENDPOINT'' = Some ep \<and> ep \<noteq> [] \<and>
            env ''BING_CONNECTION_NAME_ENV'' = Some cn \<and> cn \<noteq> []
      \<longrightarrow> init env q qd =
            Inr \<lparr> query = q, query_domains = (if truthy qd then qd else DNone),
                  project_endpoint = ep, bing_connection_name = cn \<rparr>)"
  by (auto simp: init_def Let_def)

theorem init_requires_settings_witness:
  "init (env_ok(''BING_CONNECTION_NAME_ENV'' := None)) ''cats'' DNone = Inl missing_config \<and>
   init (env_ok(''AI_PROJECT_ENDPOINT'' \<mapsto> [])) ''cats'' DNone = Inl missing_config \<and>
   init env_ok ''cats'' DNone = Inr self_plain"
  using init_requires_settings [of "env_ok(''BING_CONNECTION_NAME_ENV'' := None)" "''cats''" DNone]
    init_requires_settings [of "env_ok(''AI_PROJECT_ENDPOINT'' \<mapsto> [])" "''cats''" DNone]
    init_requires_settings [of env_ok "''cats''" DNone]
  by (simp add: env_ok_def self_plain_def)

text \<open>
  Claim C10. A falsy \<open>query_domains\<close> argument (the empty list, the empty string,
  \<open>None\<close>) gives the same object as no domain filters: the stored filters are \<open>None\<close>
  and the transmitted query is the raw query string.
\<close>

theorem falsy_domains_are_none:
  "\<not> truthy qd \<Longrightarrow>
     init env q qd = init env q DNone \<and>
     (\<forall>self. init env q qd = Inr self \<longrightarrow>
        query_domains self = DNone \<and> build_query self = q \<and>
        (\<forall>t c. MessagesCreate t c \<in> set (snd (search self k rm)) \<longrightarrow> c = q))"
proof (intro conjI allI impI)
  assume f: "\<not> truthy qd"
  show "init env q qd = init env q DNone"
    using f by (simp add: init_def)
  fix self
  assume i: "init env q qd = Inr self"
  show d: "query_domains self = DNone"
    using init_fields [OF i] f by simp
  show b: "build_query self = q"
    using init_fields [OF i] d by (simp add: build_query_def)
  fix t c
  assume "MessagesCreate t c \<in> set (snd (search self k rm))"
  then have "c = build_query self"
    by (rule transmitted_is_build_query)
  with b show "c = q" by simp
qed

theorem falsy_domains_are_none_witness:
  "\<not> truthy (DList []) \<and>
   init env_ok ''cats'' (DList []) = init env_ok ''cats'' DNone \<and>
   init env_ok ''cats'' (DList []) = Inr self_plain \<and>
   query_domains self_plain = DNone \<and> build_query self_plain = ''cats''"
proof -
  have f: "\<not> truthy (DList [])" by simp
  have i: "init env_ok ''cats'' (DList []) = Inr self_plain"
    by (simp add: init_def env_ok_def self_plain_def)
  have e: "init env_ok ''cats'' (DList []) = init env_ok ''cats'' DNone"
    by (rule falsy_domains_are_none [OF f, of env_ok "''cats''" 7 remote_ok, THEN conjunct1])
  have d: "query_domains self_plain = DNone \<and> build_query self_plain = ''cats'' \<and>
           (\<forall>t c. MessagesCreate t c \<in> set (snd (search self_plain 7 remote_ok))
              \<longrightarrow> c = ''cats'')"
    by (rule falsy_domains_are_none [OF f, of env_ok "''cats''" 7 remote_ok, THEN conjunct2,
          THEN spec, THEN mp, OF i])
  show ?thesis
    using f e i d by simp
qed

subsection \<open>The transmitted query\<close>

text \<open>
  Claim C3. For every query string \<open>q\<close>: a retriever constructed with the domain filters
  \<open>["a.com", "b.com"]\<close> transmits \<open>q site:a.com OR site:b.com\<close> as the content of the
  user message, and a retriever constructed without domain filters transmits \<open>q\<close>
  unchanged. Every message the call creates carries that text, and the message is
  created as soon as the client, the agent and the thread are there.
\<close>

theorem transmitted_query:
  "(init env q (DList [''a.com'', ''b.com'']) = Inr self \<longrightarrow>
      build_query self = q @ '' site:a.com OR site:b.com'' \<and>
      (\<forall>t c. MessagesCreate t c \<in> set (snd (search self k rm))
          \<longrightarrow> c = q @ '' site:a.com OR site:b.com'') \<and>
      (\<forall>a t. client_enter rm = None \<and> create_agent rm (bing_connection_name self) = Inr a \<and>
             threads_create rm = Inr t
          \<longrightarrow> MessagesCreate t (q @ '' site:a.com OR site:b.com'')
                \<in> set (snd (search self k rm)))) \<and>
   (init env q DNone = Inr self' \<longrightarrow>
      build_query self' = q \<and>
      (\<forall>t c. MessagesCreate t c \<in> set (snd (search self' k rm)) \<longrightarrow> c = q) \<and>
      (\<forall>a t. client_enter rm = None \<and> create_agent rm (bing_connection_name self') = Inr a \<and>
             threads_create rm = Inr t
          \<longrightarrow> MessagesCreate t q \<in> set (snd (search self' k rm))))"
proof (intro conjI impI)
  assume i: "init env q (DList [''a.com'', ''b.com'']) = Inr self"
  show b: "build_query self = q @ '' site:a.com OR site:b.com''"
    using init_fields [OF i] by (simp add: build_query_def)
  show "\<forall>t c. MessagesCreate t c \<in> set (snd (search self k rm))
          \<longrightarrow> c = q @ '' site:a.com OR site:b.com''"
    using transmitted_is_build_query [of _ _ self k rm] b by metis
  show "\<forall>a t. client_enter rm = None \<and> create_agent rm (bing_connection_name self) = Inr a \<and>
             threads_create rm = Inr t
          \<longrightarrow> MessagesCreate t (q @ '' site:a.com OR site:b.com'')
                \<in> set (snd (search self k rm))"
    using search_sends [of rm self _ _ k] b by metis
next
  assume i: "init env q DNone = Inr self'"
  show b: "build_query self' = q"
    using init_fields [OF i] by (simp add: build_query_def)
  show "\<forall>t c. MessagesCreate t c \<in> set (snd (search self' k rm)) \<longrightarrow> c = q"
    using transmitted_is_build_query [of _ _ self' k rm] b by metis
  show "\<forall>a t. client_enter rm = None \<and> create_agent rm (bing_connection_name self') = Inr a \<and>
             threads_create rm = Inr t
          \<longrightarrow> MessagesCreate t q \<in> set (snd (search self' k rm))"
    using search_sends [of rm self' _ _ k] b by metis
qed

theorem transmitted_query_witness:
  "init env_ok ''cats'' (DList [''a.com'', ''b.com'']) = Inr self_ab \<and>
   build_query self_ab = ''cats site:a.com OR site:b.com'' \<and>
   MessagesCreate ''thread_1'' ''cats site:a.com OR site:b.com''
     \<in> set (snd (search self_ab 7 remote_ok)) \<and>
   init env_ok ''cats'' DNone = Inr self_plain \<and>
   build_query self_plain = ''cats'' \<and>
   MessagesCreate ''thread_1'' ''cats'' \<in> set (snd (search self_plain 7 remote_ok))"
proof -
  have i1: "init env_ok ''cats'' (DList [''a.com'', ''b.com'']) = Inr self_ab"
    by (simp add: init_def env_ok_def self_ab_def self_plain_def)
  have i2: "init env_ok ''cats'' DNone = Inr self_plain"
    by (simp add: init_def env_ok_def self_plain_def)
  have r1: "client_enter remote_ok = None \<and>
            create_agent remote_ok (bing_connection_name self_ab) = Inr ''agent_1'' \<and>
            threads_create remote_ok = Inr ''thread_1''"
    by (simp add: remote_ok_def)
  have r2: "client_enter remote_ok = None \<and>
            create_agent remote_ok (bing_connection_name self_plain) = Inr ''agent_1'' \<and>
            threads_create remote_ok = Inr ''thread_1''"
    by (simp add: remote_ok_def)
  have b1: "build_query self_ab = ''cats'' @ '' site:a.com OR site:b.com''"
    by (rule transmitted_query [of env_ok "''cats''" self_ab 7 remote_ok self_plain,
          THEN conjunct1, THEN mp, OF i1, THEN conjunct1])
  have s1: "MessagesCreate ''thread_1'' (''cats'' @ '' site:a.com OR site:b.com'')
              \<in> set (snd (search self_ab 7 remote_ok))"
    by (rule transmitted_query [of env_ok "''cats''" self_ab 7 remote_ok self_plain,
          THEN conjunct1, THEN mp, OF i1, THEN conjunct2, THEN conjunct2,
          THEN spec, THEN spec, THEN mp, OF r1])
  have b2: "build_query self_plain = ''cats''"
    by (rule transmitted_query [of env_ok "''cats''" self_ab 7 remote_ok self_plain,
          THEN conjunct2, THEN mp, OF i2, THEN conjunct1])
  have s2: "MessagesCreate ''thread_1'' ''cats'' \<in> set (snd (search self_plain 7 remote_ok))"
    by (rule transmitted_query [of env_ok "''cats''" self_ab 7 remote_ok self_plain,
          THEN conjunct2, THEN mp, OF i2, THEN conjunct2, THEN conjunct2,
          THEN spec, THEN spec, THEN mp, OF r2])
  show ?thesis
    using i1 i2 b1 s1 b2 s2 by simp
qed

subsection \<open>The argument \<open>max_results\<close>\<close>

text \<open>
  Claim C8. Two calls of \<open>search\<close> on the same retriever and the same remote responses
  that differ only in \<open>max_results\<close> make the same remote calls (the transmitted query
  among them), write the same log lines and return the same list.
\<close>

theorem search_ignores_max_results: "search self m1 rm = search self m2 rm"
  by (simp add: search_def)

subsection \<open>A run that fails\<close>

text \<open>
  Claim C4. When the remote run reports the status \<open>failed\<close>, \<open>search\<close> returns the
  empty list and no exception escapes.
\<close>

theorem failed_run_returns_empty:
  "client_enter rm = None \<Longrightarrow>
   create_agent rm (bing_connection_name self) = Inr a \<Longrightarrow>
   threads_create rm = Inr t \<Longrightarrow>
   messages_create rm t (build_query self) = None \<Longrightarrow>
   create_and_process rm t a = Inr r \<Longrightarrow>
   status r = ''failed'' \<Longrightarrow>
   fst (search self k rm) = Inr []"
  by (simp add: search_def body_def Let_def comp_simps split: option.splits)

theorem failed_run_returns_empty_witness:
  "status run_failed = ''failed'' \<and> fst (search self_plain 7 remote_failed_run) = Inr []"
proof -
  have s: "status run_failed = ''failed''"
    by (simp add: run_failed_def)
  have "fst (search self_plain 7 remote_failed_run) = Inr []"
    by (rule failed_run_returns_empty [where a = "''agent_1''" and t = "''thread_1''"
          and r = run_failed])
       (simp_all add: remote_failed_run_def remote_ok_def run_failed_def)
  with s show ?thesis by simp
qed

subsection \<open>Size of the result\<close>

text \<open>
  Claim C9. \<open>search\<close> always returns a list, of at most one element: the empty list, or
  the single item built from the value and the annotations of the text of the selected
  assistant message.
\<close>

theorem at_most_one_result:
  "\<exists>r. fst (search self k rm) = Inr r \<and> length r \<le> 1 \<and>
     (r = [] \<or>
      (\<exists>t msgs m tx v. threads_create rm = Inr t \<and> messages_list rm t = Inr msgs \<and>
         find_last_msg msgs = Some m \<and> is_assistant m \<and> m \<in> set msgs \<and>
         m_text m = Some tx \<and> t_value tx = Some v \<and>
         r = [text_item v (case t_annotations tx of
                             Some (AnnList anns) \<Rightarrow> map format_annotation anns
                           | _ \<Rightarrow> [])]))"
proof -
  obtain r where r: "fst (search self k rm) = Inr r"
    using search_returns by blast
  have body: "length r \<le> 1 \<and>
     (r = [] \<or>
      (\<exists>t msgs m tx v. threads_create rm = Inr t \<and> messages_list rm t = Inr msgs \<and>
         find_last_msg msgs = Some m \<and> is_assistant m \<and> m \<in> set msgs \<and>
         m_text m = Some tx \<and> t_value tx = Some v \<and>
         r = [text_item v (case t_annotations tx of
                             Some (AnnList anns) \<Rightarrow> map format_annotation anns
                           | _ \<Rightarrow> [])]))"
  proof (cases "r = []")
    case True
    then show ?thesis by simp
  next
    case False
    with r search_outcome [of self k rm]
    obtain t msgs where tm: "threads_create rm = Inr t" "messages_list rm t = Inr msgs"
      and eq: "fst (build_response (find_last_msg msgs)) = Inr r"
      by auto
    from build_response_shape [OF eq] False
    obtain m tx v where sh: "find_last_msg msgs = Some m" "m_text m = Some tx"
        "t_value tx = Some v"
        "r = [text_item v (case t_annotations tx of
                             Some (AnnList anns) \<Rightarrow> map format_annotation anns
                           | _ \<Rightarrow> [])]"
      by blast
    from scan_Some [of "rev msgs" m] sh(1) have as: "is_assistant m" "m \<in> set msgs"
      by (simp_all add: find_last_msg_def)
    have len: "length r \<le> 1"
      using sh(4) by simp
    have "\<exists>t msgs m tx v. threads_create rm = Inr t \<and> messages_list rm t = Inr msgs \<and>
         find_last_msg msgs = Some m \<and> is_assistant m \<and> m \<in> set msgs \<and>
         m_text m = Some tx \<and> t_value tx = Some v \<and>
         r = [text_item v (case t_annotations tx of
                             Some (AnnList anns) \<Rightarrow> map format_annotation anns
                           | _ \<Rightarrow> [])]"
      using tm sh as by (intro exI conjI)
    with len show ?thesis by simp
  qed
  show ?thesis
    by (rule exI [of _ r], rule conjI [OF r body])
qed

theorem at_most_one_result_witness:
  "fst (search self_plain 7 remote_ok) =
     Inr [text_item (PStr ''Cats purr.'') (map format_annotation [ann_cited, ann_bare])] \<and>
   (\<exists>r. fst (search self_plain 7 remote_ok) = Inr r \<and> length r \<le> 1)"
proof -
  have v: "fst (search self_plain 7 remote_ok) =
     Inr [text_item (PStr ''Cats purr.'') (map format_annotation [ann_cited, ann_bare])]"
    by (simp add: search_def body_def try_delete_def build_response_def find_last_msg_def
        is_assistant_def build_query_def bind_def try_except_def with_client_def call_def
        call_unit_def emit_def ret_def self_plain_def remote_ok_def msg_user_def
        msg_assistant_def text_cats_def run_completed_def)
  from at_most_one_result [of self_plain 7 remote_ok]
  obtain r where "fst (search self_plain 7 remote_ok) = Inr r \<and> length r \<le> 1"
    by (elim exE conjE) (rule that, rule conjI)
  then have "\<exists>r. fst (search self_plain 7 remote_ok) = Inr r \<and> length r \<le> 1" ..
  with v show ?thesis by (rule conjI)
qed

subsection \<open>The selected message\<close>




subsection \<open>Formatting of the annotations\<close>

text \<open>
  Claim C6. For a message whose text has a value and a list of annotations, the response
  is built without failure, one dictionary per annotation, and every attribute missing
  from an annotation (\<open>type\<close>, \<open>text\<close>, \<open>start_index\<close>, \<open>end_index\<close>, \<open>url_citation\<close>, and
  \<open>url\<close> and \<open>title\<close> of the citation) is \<open>None\<close> in its dictionary. An annotation
  without \<open>url_citation\<close> gets \<open>None\<close> for that field.
\<close>

theorem annotations_mapped_defensively:
  "m_text m = Some tx \<Longrightarrow> t_value tx = Some v \<Longrightarrow> t_annotations tx = Some (AnnList anns) \<Longrightarrow>
   build_response (Some m) = (Inr [text_item v (map format_annotation anns)], []) \<and>
   (\<forall>a\<in>set anns.
      (a_type a = None \<longrightarrow> f_type (format_annotation a) = PNone) \<and>
      (a_text a = None \<longrightarrow> f_text (format_annotation a) = PNone) \<and>
      (a_start_index a = None \<longrightarrow> f_start_index (format_annotation a) = PNone) \<and>
      (a_end_index a = None \<longrightarrow> f_end_index (format_annotation a) = PNone) \<and>
      (a_url_citation a = None \<longrightarrow> f_url_citation (format_annotation a) = None) \<and>
      (a_url_citation a = Some CitNone \<longrightarrow> f_url_citation (format_annotation a) = None) \<and>
      (\<forall>t. a_url_citation a = Some (Citation None t) \<longrightarrow>
         map_option d_url (f_url_citation (format_annotation a)) = Some PNone) \<and>
      (\<forall>u. a_url_citation a = Some (Citation u None) \<longrightarrow>
         map_option d_title (f_url_citation (format_annotation a)) = Some PNone))"
proof (rule conjI)
  assume "m_text m = Some tx" "t_value tx = Some v" "t_annotations tx = Some (AnnList anns)"
  then show "build_response (Some m) = (Inr [text_item v (map format_annotation anns)], [])"
    by (simp add: build_response_def ret_def)
next
  show "\<forall>a\<in>set anns.
      (a_type a = None \<longrightarrow> f_type (format_annotation a) = PNone) \<and>
      (a_text a = None \<longrightarrow> f_text (format_annotation a) = PNone) \<and>
      (a_start_index a = None \<longrightarrow> f_start_index (format_annotation a) = PNone) \<and>
      (a_end_index a = None \<longrightarrow> f_end_index (format_annotation a) = PNone) \<and>
      (a_url_citation a = None \<longrightarrow> f_url_citation (format_annotation a) = None) \<and>
      (a_url_citation a = Some CitNone \<longrightarrow> f_url_citation (format_annotation a) = None) \<and>
      (\<forall>t. a_url_citation a = Some (Citation None t) \<longrightarrow>
         map_option d_url (f_url_citation (format_annotation a)) = Some PNone) \<and>
      (\<forall>u. a_url_citation a = Some (Citation u None) \<longrightarrow>
         map_option d_title (f_url_citation (format_annotation a)) = Some PNone)"
    by (rule ballI) (rule format_annotation_missing)
qed

theorem annotations_mapped_defensively_witness:
  "build_response (Some msg_assistant) =
     (Inr [text_item (PStr ''Cats purr.'')
             [format_annotation ann_cited, format_annotation ann_bare]], []) \<and>
   a_url_citation ann_bare = None \<and>
   f_url_citation (format_annotation ann_bare) = None \<and>
   f_type (format_annotation ann_bare) = PNone \<and>
   map_option d_title (f_url_citation (format_annotation ann_cited)) = Some PNone"
proof -
  have h1: "m_text msg_assistant = Some text_cats"
    by (simp add: msg_assistant_def)
  have h2: "t_value text_cats = Some (PStr ''Cats purr.'')"
    by (simp add: text_cats_def)
  have h3: "t_annotations text_cats = Some (AnnList [ann_cited, ann_bare])"
    by (simp add: text_cats_def)
  have b: "a_url_citation ann_bare = None \<and> a_type ann_bare = None"
    by (simp add: ann_bare_def)
  have c: "a_url_citation ann_cited = Some (Citation (Some (PStr ''https://a.com'')) None)"
    by (simp add: ann_cited_def)
  have r: "build_response (Some msg_assistant) =
     (Inr [text_item (PStr ''Cats purr.'') (map format_annotation [ann_cited, ann_bare])], [])"
    by (rule annotations_mapped_defensively [OF h1 h2 h3, THEN conjunct1])
  have q: "\<forall>a\<in>set [ann_cited, ann_bare].
      (a_type a = None \<longrightarrow> f_type (format_annotation a) = PNone) \<and>
      (a_text a = None \<longrightarrow> f_text (format_annotation a) = PNone) \<and>
      (a_start_index a = None \<longrightarrow> f_start_index (format_annotation a) = PNone) \<and>
      (a_end_index a = None \<longrightarrow> f_end_index (format_annotation a) = PNone) \<and>
      (a_url_citation a = None \<longrightarrow> f_url_citation (format_annotation a) = None) \<and>
      (a_url_citation a = Some CitNone \<longrightarrow> f_url_citation (format_annotation a) = None) \<and>
      (\<forall>t. a_url_citation a = Some (Citation None t) \<longrightarrow>
         map_option d_url (f_url_citation (format_annotation a)) = Some PNone) \<and>
      (\<forall>u. a_url_citation a = Some (Citation u None) \<longrightarrow>
         map_option d_title (f_url_citation (format_annotation a)) = Some PNone)"
    by (rule annotations_mapped_defensively [OF h1 h2 h3, THEN conjunct2])
  show ?thesis
    using r q b c by simp
qed

subsection \<open>Deletion of the agent\<close>

text \<open>
  Claim C1. The claim is that after a successful agent creation the deletion of the
  agent is attempted exactly once on every path, and the comment of line 135 says
  "Always attempt to delete the agent before returning". The deletion block is placed
  after the \<open>if\<close> statement, inside the \<open>try\<close>: the \<open>return []\<close> of line 88 and every
  exception of a later step leave the function without reaching it. Here the agent is
  created, the run reports the status \<open>failed\<close> (or creating the thread raises), and
  the call ends with no deletion among its events.
\<close>

theorem deletion_skipped_after_failed_run:
  "create_agent remote_failed_run (bing_connection_name self_plain) = Inr ''agent_1'' \<and>
   search self_plain 7 remote_failed_run =
     (Inr [], [Enter, CreateAgent ''conn'', ThreadsCreate,
               LogInfo ''Created thread with id: thread_1'',
               MessagesCreate ''thread_1'' ''cats'',
               CreateAndProcess ''thread_1'' ''agent_1'',
               LogError ''Run failed: rate limit'', Exit]) \<and>
   deletions (snd (search self_plain 7 remote_failed_run)) = 0 \<and>
   create_agent remote_no_thread (bing_connection_name self_plain) = Inr ''agent_1'' \<and>
   search self_plain 7 remote_no_thread =
     (Inr [], [Enter, CreateAgent ''conn'', ThreadsCreate, Exit,
               LogError ''Azure Bing Search failed: timeout'']) \<and>
   deletions (snd (search self_plain 7 remote_no_thread)) = 0"
proof -
  have a: "search self_plain 7 remote_failed_run =
     (Inr [], [Enter, CreateAgent ''conn'', ThreadsCreate,
               LogInfo ''Created thread with id: thread_1'',
               MessagesCreate ''thread_1'' ''cats'',
               CreateAndProcess ''thread_1'' ''agent_1'',
               LogError ''Run failed: rate limit'', Exit])"
    by (simp add: search_def body_def build_query_def bind_def try_except_def
        with_client_def call_def call_unit_def emit_def ret_def self_plain_def
        remote_failed_run_def remote_ok_def run_failed_def)
  have b: "search self_plain 7 remote_no_thread =
     (Inr [], [Enter, CreateAgent ''conn'', ThreadsCreate, Exit,
               LogError ''Azure Bing Search failed: timeout''])"
    by (simp add: search_def body_def build_query_def bind_def try_except_def
        with_client_def call_def call_unit_def emit_def ret_def self_plain_def
        remote_no_thread_def remote_ok_def)
  have c: "create_agent remote_failed_run (bing_connection_name self_plain) = Inr ''agent_1''"
    by (simp add: remote_failed_run_def remote_ok_def)
  have d: "create_agent remote_no_thread (bing_connection_name self_plain) = Inr ''agent_1''"
    by (simp add: remote_no_thread_def remote_ok_def)
  show ?thesis
    by (simp add: a b c d deletions_simps)
qed

subsection \<open>Exceptions\<close>

text \<open>
  Claim C2, as stated, fails: an exception raised by the deletion of the agent is raised
  inside the remote-call portion, is caught and logged by the inner handler, and the
  call still returns the response it had built, here a list of one element.
\<close>

theorem deletion_failure_keeps_result:
  "delete_agent remote_no_delete ''agent_1'' = Some (Exn ''503'') \<and>
   search self_plain 7 remote_no_delete =
     (Inr [text_item (PStr ''Cats purr.'') (map format_annotation [ann_cited, ann_bare])],
      [Enter, CreateAgent ''conn'', ThreadsCreate,
       LogInfo ''Created thread with id: thread_1'',
       MessagesCreate ''thread_1'' ''cats'',
       CreateAndProcess ''thread_1'' ''agent_1'', MessagesList ''thread_1'',
       DeleteAgent ''agent_1'', LogWarning ''Failed to delete agent: 503'', Exit]) \<and>
   fst (search self_plain 7 remote_no_delete) \<noteq> Inr []"
proof -
  have d: "delete_agent remote_no_delete ''agent_1'' = Some (Exn ''503'')"
    by (simp add: remote_no_delete_def)
  have v: "search self_plain 7 remote_no_delete =
     (Inr [text_item (PStr ''Cats purr.'') (map format_annotation [ann_cited, ann_bare])],
      [Enter, CreateAgent ''conn'', ThreadsCreate,
       LogInfo ''Created thread with id: thread_1'',
       MessagesCreate ''thread_1'' ''cats'',
       CreateAndProcess ''thread_1'' ''agent_1'', MessagesList ''thread_1'',
       DeleteAgent ''agent_1'', LogWarning ''Failed to delete agent: 503'', Exit])"
    by (simp add: search_def body_def try_delete_def build_response_def find_last_msg_def
        is_assistant_def build_query_def bind_def try_except_def with_client_def call_def
        call_unit_def emit_def ret_def self_plain_def remote_no_delete_def remote_ok_def
        msg_user_def msg_assistant_def text_cats_def run_completed_def)
  show ?thesis
    by (simp add: d v)
qed

text \<open>
  Claim C2, amended. No exception escapes \<open>search\<close>. An exception raised on entering or
  on leaving the client is caught and logged by the handler of line 144, and the call
  returns the empty list. When leaving the client does not raise, an exception raised by
  the creation of the agent, of the thread or of the message, by the run, by listing the
  messages or by building the response is caught and logged by that handler, and the call
  returns the empty list. An exception raised by the deletion of the agent is caught and
  logged as a warning; the call then returns the response it had built, or the empty list
  when leaving the client raises afterwards.
\<close>

theorem exceptions_handled:
  "(\<exists>res. fst (search self k rm) = Inr res) \<and>
   (\<forall>e. client_enter rm = Some e \<longrightarrow> caught_and_logged (search self k rm) e) \<and>
   (client_enter rm = None \<longrightarrow>
     (\<forall>e. client_exit rm = Some e \<longrightarrow> caught_and_logged (search self k rm) e) \<and>
     (client_exit rm = None \<longrightarrow>
       (\<forall>e. create_agent rm (bing_connection_name self) = Inl e \<longrightarrow>
            caught_and_logged (search self k rm) e) \<and>
       (\<forall>a. create_agent rm (bing_connection_name self) = Inr a \<longrightarrow>
         (\<forall>e. threads_create rm = Inl e \<longrightarrow> caught_and_logged (search self k rm) e) \<and>
         (\<forall>t. threads_create rm = Inr t \<longrightarrow>
           (\<forall>e. messages_create rm t (build_query self) = Some e \<longrightarrow>
                caught_and_logged (search self k rm) e) \<and>
           (messages_create rm t (build_query self) = None \<longrightarrow>
             (\<forall>e. create_and_process rm t a = Inl e \<longrightarrow>
                  caught_and_logged (search self k rm) e) \<and>
             (\<forall>r. create_and_process rm t a = Inr r \<longrightarrow> status r \<noteq> ''failed'' \<longrightarrow>
               (\<forall>e. messages_list rm t = Inl e \<longrightarrow>
                    caught_and_logged (search self k rm) e) \<and>
               (\<forall>msgs e. messages_list rm t = Inr msgs \<longrightarrow>
                    fst (build_response (find_last_msg msgs)) = Inl e \<longrightarrow>
                    caught_and_logged (search self k rm) e)))))) \<and>
     (\<forall>a t r msgs res e.
        create_agent rm (bing_connection_name self) = Inr a \<longrightarrow>
        threads_create rm = Inr t \<longrightarrow>
        messages_create rm t (build_query self) = None \<longrightarrow>
        create_and_process rm t a = Inr r \<longrightarrow> status r \<noteq> ''failed'' \<longrightarrow>
        messages_list rm t = Inr msgs \<longrightarrow>
        fst (build_response (find_last_msg msgs)) = Inr res \<longrightarrow>
        delete_agent rm a = Some e \<longrightarrow>
        LogWarning (''Failed to delete agent: '' @ exn_str e) \<in> set (snd (search self k rm)) \<and>
        fst (search self k rm) =
          (case client_exit rm of None \<Rightarrow> Inr res | Some x \<Rightarrow> Inr [])))"
proof (intro conjI allI impI)
  show "\<exists>res. fst (search self k rm) = Inr res"
    by (rule search_returns)
next
  fix e assume "client_enter rm = Some e"
  then show "caught_and_logged (search self k rm) e"
    by (rule caught_enter)
next
  fix e assume "client_enter rm = None" "client_exit rm = Some e"
  then show "caught_and_logged (search self k rm) e"
    by (rule caught_exit)
next
  fix e assume "client_enter rm = None" "client_exit rm = None"
    "create_agent rm (bing_connection_name self) = Inl e"
  then show "caught_and_logged (search self k rm) e"
    by (rule caught_create_agent)
next
  fix a e assume "client_enter rm = None" "client_exit rm = None"
    "create_agent rm (bing_connection_name self) = Inr a" "threads_create rm = Inl e"
  then show "caught_and_logged (search self k rm) e"
    by (rule caught_threads_create)
next
  fix a t e assume "client_enter rm = None" "client_exit rm = None"
    "create_agent rm (bing_connection_name self) = Inr a" "threads_create rm = Inr t"
    "messages_create rm t (build_query self) = Some e"
  then show "caught_and_logged (search self k rm) e"
    by (rule caught_messages_create)
next
  fix a t e assume "client_enter rm = None" "client_exit rm = None"
    "create_agent rm (bing_connection_name self) = Inr a" "threads_create rm = Inr t"
    "messages_create rm t (build_query self) = None" "create_and_process rm t a = Inl e"
  then show "caught_and_logged (search self k rm) e"
    by (rule caught_create_and_process)
next
  fix a t r e assume "client_enter rm = None" "client_exit rm = None"
    "create_agent rm (bing_connection_name self) = Inr a" "threads_create rm = Inr t"
    "messages_create rm t (build_query self) = None" "create_and_process rm t a = Inr r"
    "status r \<noteq> ''failed''" "messages_list rm t = Inl e"
  then show "caught_and_logged (search self k rm) e"
    by (rule caught_messages_list)
next
  fix a t r msgs e assume "client_enter rm = None" "client_exit rm = None"
    "create_agent rm (bing_connection_name self) = Inr a" "threads_create rm = Inr t"
    "messages_create rm t (build_query self) = None" "create_and_process rm t a = Inr r"
    "status r \<noteq> ''failed''" "messages_list rm t = Inr msgs"
    "fst (build_response (find_last_msg msgs)) = Inl e"
  then show "caught_and_logged (search self k rm) e"
    by (rule caught_build_response)
next
  fix a t r msgs res e assume h: "client_enter rm = None"
    "create_agent rm (bing_connection_name self) = Inr a" "threads_create rm = Inr t"
    "messages_create rm t (build_query self) = None" "create_and_process rm t a = Inr r"
    "status r \<noteq> ''failed''" "messages_list rm t = Inr msgs"
    "fst (build_response (find_last_msg msgs)) = Inr res" "delete_agent rm a = Some e"
  show "LogWarning (''Failed to delete agent: '' @ exn_str e) \<in> set (snd (search self k rm))"
    by (rule delete_failure_outcome [OF h, THEN conjunct1])
  show "fst (search self k rm) = (case client_exit rm of None \<Rightarrow> Inr res | Some x \<Rightarrow> Inr [])"
    by (rule delete_failure_outcome [OF h, THEN conjunct2])
qed

theorem exceptions_handled_witness:
  "caught_and_logged (search self_plain 7 remote_no_thread) (Exn ''timeout'') \<and>
   LogWarning (''Failed to delete agent: '' @ exn_str (Exn ''503''))
     \<in> set (snd (search self_plain 7 remote_no_delete)) \<and>
   fst (search self_plain 7 remote_no_delete) =
     Inr [text_item (PStr ''Cats purr.'') (map format_annotation [ann_cited, ann_bare])] \<and>
   LogWarning (''Failed to delete agent: '' @ exn_str (Exn ''503''))
     \<in> set (snd (search self_plain 7 remote_no_delete_no_exit)) \<and>
   fst (search self_plain 7 remote_no_delete_no_exit) = Inr []"
proof -
  have n1: "client_enter remote_no_thread = None" and n2: "client_exit remote_no_thread = None"
    and n3: "create_agent remote_no_thread (bing_connection_name self_plain) = Inr ''agent_1''"
    and n4: "threads_create remote_no_thread = Inl (Exn ''timeout'')"
    by (simp_all add: remote_no_thread_def remote_ok_def)
  have a: "caught_and_logged (search self_plain 7 remote_no_thread) (Exn ''timeout'')"
    by (rule exceptions_handled [of self_plain 7 remote_no_thread,
          THEN conjunct2, THEN conjunct2, THEN mp, OF n1,
          THEN conjunct2, THEN conjunct1, THEN mp, OF n2,
          THEN conjunct2, THEN spec, THEN mp, OF n3,
          THEN conjunct1, THEN spec, THEN mp, OF n4])
  have d7: "status run_completed \<noteq> ''failed''"
    by (simp add: run_completed_def)
  have d9: "fst (build_response (find_last_msg [msg_user, msg_assistant])) =
     Inr [text_item (PStr ''Cats purr.'') (map format_annotation [ann_cited, ann_bare])]"
    by (simp add: build_response_def find_last_msg_def is_assistant_def ret_def
        msg_user_def msg_assistant_def text_cats_def)
  have d1: "client_enter remote_no_delete = None" and d2: "client_exit remote_no_delete = None"
    and d3: "create_agent remote_no_delete (bing_connection_name self_plain) = Inr ''agent_1''"
    and d4: "threads_create remote_no_delete = Inr ''thread_1''"
    and d5: "messages_create remote_no_delete ''thread_1'' (build_query self_plain) = None"
    and d6: "create_and_process remote_no_delete ''thread_1'' ''agent_1'' = Inr run_completed"
    and d8: "messages_list remote_no_delete ''thread_1'' = Inr [msg_user, msg_assistant]"
    and d10: "delete_agent remote_no_delete ''agent_1'' = Some (Exn ''503'')"
    by (simp_all add: remote_no_delete_def remote_ok_def)
  have b: "LogWarning (''Failed to delete agent: '' @ exn_str (Exn ''503''))
       \<in> set (snd (search self_plain 7 remote_no_delete)) \<and>
     fst (search self_plain 7 remote_no_delete) =
       (case client_exit remote_no_delete of
          None \<Rightarrow> Inr [text_item (PStr ''Cats purr.'')
                         (map format_annotation [ann_cited, ann_bare])]
        | Some x \<Rightarrow> Inr [])"
    by (rule exceptions_handled [of self_plain 7 remote_no_delete,
          THEN conjunct2, THEN conjunct2, THEN mp, OF d1,
          THEN conjunct2, THEN conjunct2,
          THEN spec, THEN spec, THEN spec, THEN spec, THEN spec, THEN spec,
          THEN mp, OF d3, THEN mp, OF d4, THEN mp, OF d5, THEN mp, OF d6, THEN mp, OF d7,
          THEN mp, OF d8, THEN mp, OF d9, THEN mp, OF d10])
  have e1: "client_enter remote_no_delete_no_exit = None"
    and e2: "client_exit remote_no_delete_no_exit = Some (Exn ''closed'')"
    and e3: "create_agent remote_no_delete_no_exit (bing_connection_name self_plain) =
               Inr ''agent_1''"
    and e4: "threads_create remote_no_delete_no_exit = Inr ''thread_1''"
    and e5: "messages_create remote_no_delete_no_exit ''thread_1'' (build_query self_plain) = None"
    and e6: "create_and_process remote_no_delete_no_exit ''thread_1'' ''agent_1'' =
               Inr run_completed"
    and e8: "messages_list remote_no_delete_no_exit ''thread_1'' = Inr [msg_user, msg_assistant]"
    and e10: "delete_agent remote_no_delete_no_exit ''agent_1'' = Some (Exn ''503'')"
    by (simp_all add: remote_no_delete_no_exit_def remote_no_delete_def remote_ok_def)
  have c: "LogWarning (''Failed to delete agent: '' @ exn_str (Exn ''503''))
       \<in> set (snd (search self_plain 7 remote_no_delete_no_exit)) \<and>
     fst (search self_plain 7 remote_no_delete_no_exit) =
       (case client_exit remote_no_delete_no_exit of
          None \<Rightarrow> Inr [text_item (PStr ''Cats purr.'')
                         (map format_annotation [ann_cited, ann_bare])]
        | Some x \<Rightarrow> Inr [])"
    by (rule exceptions_handled [of self_plain 7 remote_no_delete_no_exit,
          THEN conjunct2, THEN conjunct2, THEN mp, OF e1,
          THEN conjunct2, THEN conjunct2,
          THEN spec, THEN spec, THEN spec, THEN spec, THEN spec, THEN spec,
          THEN mp, OF e3, THEN mp, OF e4, THEN mp, OF e5, THEN mp, OF e6, THEN mp, OF d7,
          THEN mp, OF e8, THEN mp, OF d9, THEN mp, OF e10])
  show ?thesis
    using a b c d2 e2 by simp
qed

end
